theory Spec2Isabelle
  imports Complex_Main "HOL-Library.Signed_Division"
begin

section \<open>JavaScript values used by the tick and liquidity mathematics\<close>

text \<open>
  The module computes with two kinds of numbers. Ticks and tick spacings are JavaScript
  \<open>number\<close>s that hold integers; they are modelled as \<^typ>\<open>int\<close>, and a quotient of two of
  them is the exact rational (for integers below \<open>2^52\<close> in magnitude the double quotient lies
  on the same side of every half-integer as the exact one, so \<open>Math.round\<close> of either is the
  same integer). A \<open>number\<close> result that is \<open>NaN\<close> is \<^const>\<open>None\<close>. Square-root prices,
  liquidity and amounts are \<open>JSBI\<close> big integers, modelled as \<^typ>\<open>int\<close>; an exception
  thrown by the library is a value of \<open>js_error\<close>.
\<close>

datatype js_error = SyntaxError | RangeError | Error

text \<open>
  A call that may throw returns \<open>js_error + 'a\<close>; \<open>bind_result\<close> runs the rest of the
  function body on the value returned and passes a thrown error on.
\<close>

definition bind_result :: "js_error + 'a \<Rightarrow> ('a \<Rightarrow> js_error + 'b) \<Rightarrow> js_error + 'b" where
  "bind_result r f = (case r of Inl e \<Rightarrow> Inl e | Inr x \<Rightarrow> f x)"

text \<open>The remainder operator \<open>a % b\<close>: the sign follows the dividend, and \<open>a % 0\<close> is \<open>NaN\<close>.\<close>

definition js_rem :: "int \<Rightarrow> int \<Rightarrow> int option" where
  "js_rem a b = (if b = 0 then None else Some (a smod b))"

text \<open>\<open>Math.round\<close>: the nearest integer, a tie going towards \<open>+\<infinity>\<close>.\<close>

definition Math_round :: "rat \<Rightarrow> int" where
  "Math_round q = \<lfloor>q + 1 / 2\<rfloor>"


section \<open>Big integers and their decimal strings\<close>

text \<open>
  Every exported function of \<open>liquidityUtils.ts\<close> takes and returns big integers as
  strings: \<open>JSBI.BigInt(s)\<close> reads one, \<open>x.toString()\<close> writes one.
\<close>

text \<open>A digit as a character, and the digit a character stands for, by character code.\<close>

definition digit_char :: "nat \<Rightarrow> char" where
  "digit_char d = ''0123456789'' ! (d mod 10)"

definition digit_val :: "char \<Rightarrow> nat option" where
  "digit_val c =
     (if of_char CHR ''0'' \<le> (of_char c :: nat) \<and> (of_char c :: nat) \<le> of_char CHR ''9''
      then Some (of_char c - of_char CHR ''0'') else None)"

text \<open>The decimal digits of a natural number, most significant first, no leading zero.\<close>

fun decimal :: "nat \<Rightarrow> string" where
  "decimal n = (if n < 10 then [digit_char n] else decimal (n div 10) @ [digit_char (n mod 10)])"

declare decimal.simps [simp del]

text \<open>\<open>JSBI.prototype.toString()\<close> in radix 10.\<close>

definition JSBI_toString :: "int \<Rightarrow> string" where
  "JSBI_toString x = (if x < 0 then CHR ''-'' # decimal (nat (- x)) else decimal (nat x))"

fun parse_digits :: "nat \<Rightarrow> string \<Rightarrow> nat option" where
  "parse_digits acc [] = Some acc"
| "parse_digits acc (c # cs) =
     (case digit_val c of None \<Rightarrow> None | Some d \<Rightarrow> parse_digits (10 * acc + d) cs)"

text \<open>
  \<open>JSBI.BigInt(s)\<close> for a string \<open>s\<close>: an optional minus sign and decimal digits give the
  integer, the empty string gives zero, and a character that is no digit makes the library
  throw a \<open>SyntaxError\<close>. (The library also accepts surrounding blanks, a plus sign and the
  prefixes \<open>0x\<close>, \<open>0o\<close>, \<open>0b\<close>; strings of those forms are not used below.)
\<close>

definition JSBI_BigInt :: "string \<Rightarrow> js_error + int" where
  "JSBI_BigInt s =
     (case s of
        [] \<Rightarrow> Inr 0
      | c # cs \<Rightarrow>
          if c = CHR ''-'' then
            (if cs = [] then Inl SyntaxError
             else case parse_digits 0 cs of
                    None \<Rightarrow> Inl SyntaxError
                  | Some n \<Rightarrow> Inr (- int n))
          else
            (case parse_digits 0 s of
               None \<Rightarrow> Inl SyntaxError
             | Some n \<Rightarrow> Inr (int n)))"

text \<open>\<open>JSBI.divide\<close>: the quotient truncated towards zero; a zero divisor throws.\<close>

definition JSBI_divide :: "int \<Rightarrow> int \<Rightarrow> js_error + int" where
  "JSBI_divide x y = (if y = 0 then Inl RangeError else Inr (x sdiv y))"


section \<open>Numbers, the \<open>Math\<close> object and number-to-string conversion\<close>

text \<open>
  Prices are doubles. A finite double is a real number, so prices are modelled as
  \<^typ>\<open>real\<close>; what the engine computes is a parameter: \<open>Math.pow\<close>, \<open>Math.log\<close> and
  \<open>Math.sqrt\<close> are "implementation-approximated" in ECMAScript, and \<open>round_double\<close> is
  the rounding of an exact product or quotient to the nearest double. Theorems state which
  properties of the engine they rely on.
\<close>

record js_math =
  Math_pow :: "real \<Rightarrow> real \<Rightarrow> real"
  Math_log :: "real \<Rightarrow> real"
  Math_sqrt :: "real \<Rightarrow> real"
  round_double :: "real \<Rightarrow> real"

text \<open>
  \<open>Number.prototype.toString()\<close> for an integer-valued number (the only kind the module
  converts, after \<open>Math.floor\<close>). ECMAScript takes the shortest decimal \<open>s \<times> 10^(n-k)\<close>,
  with \<open>k\<close> digits \<open>s\<close>, that converts back to the number; it prints the digits followed by
  \<open>n - k\<close> zeros when \<open>n \<le> 21\<close> and exponential notation otherwise. An integer below
  \<open>2^53\<close> is its own shortest decimal. From \<open>2^53\<close> on, \<open>reads_back x v\<close> says that the
  decimal value \<open>v\<close> converts to the double \<open>x\<close> (round to nearest, ties to even), and
  \<open>shortest_at\<close> tries ever more digits, taking the closer candidate when both neighbours
  of \<open>x\<close> convert back.
\<close>

fun bit_length :: "nat \<Rightarrow> nat" where
  "bit_length n = (if n = 0 then 0 else Suc (bit_length (n div 2)))"

declare bit_length.simps [simp del]

definition reads_back :: "nat \<Rightarrow> nat \<Rightarrow> bool" where
  "reads_back x v =
     (let e = bit_length x - 1;
          half = 2 ^ (e - 53);
          even_mantissa = even (x div 2 ^ (e - 52))
      in if v \<ge> x then v - x < half \<or> (v - x = half \<and> even_mantissa)
         else if x = 2 ^ e then 2 * (x - v) \<le> half
         else x - v < half \<or> (x - v = half \<and> even_mantissa))"

fun shortest_at :: "nat \<Rightarrow> nat \<Rightarrow> nat" where
  "shortest_at x j =
     (if j = 0 then x
      else
        let P = 10 ^ j; lo = x div P * P; hi = lo + P in
        if reads_back x lo \<and> reads_back x hi then
          (if x - lo < hi - x then lo
           else if hi - x < x - lo then hi
           else if even (x div P) then lo else hi)
        else if reads_back x lo then lo
        else if reads_back x hi then hi
        else shortest_at x (j - 1))"

declare shortest_at.simps [simp del]

definition shortest_decimal :: "nat \<Rightarrow> nat" where
  "shortest_decimal x = shortest_at x (length (decimal x) - 1)"

definition strip_zeros :: "string \<Rightarrow> string" where
  "strip_zeros ds = rev (dropWhile (\<lambda>c. c = CHR ''0'') (rev ds))"

definition Number_toString :: "int \<Rightarrow> string" where
  "Number_toString i =
     (let x = nat \<bar>i\<bar>;
          body =
            (if x < 2 ^ 53 then decimal x
             else
               let v = shortest_decimal x; n = length (decimal v) in
               if n \<le> 21 then decimal v
               else
                 let s = strip_zeros (decimal v) in
                 (if length s = 1 then s else hd s # CHR ''.'' # tl s)
                   @ ''e+'' @ decimal (n - 1))
      in if i < 0 then CHR ''-'' # body else body)"


section \<open>constants/tickMath.ts\<close>

definition MIN_TICK :: int where
  "MIN_TICK = - 887272"

definition MAX_TICK :: int where
  "MAX_TICK = 887272"

text \<open>\<open>TICK_BASE = 1.0001\<close>: the double nearest to that decimal.\<close>

definition TICK_BASE :: real where
  "TICK_BASE = 4504049987333233 / 4503599627370496"

definition tickToPrice :: "js_math \<Rightarrow> int \<Rightarrow> real" where
  "tickToPrice M tick = Math_pow M TICK_BASE (of_int tick)"

text \<open>
  \<open>priceToTick\<close>. For a price that is not positive the logarithm is \<open>NaN\<close> or \<open>-\<infinity>\<close>
  and so is the result; \<^const>\<open>None\<close> stands for both.
\<close>

definition priceToTick :: "js_math \<Rightarrow> real \<Rightarrow> int option" where
  "priceToTick M price =
     (if price \<le> 0 \<or> Math_log M TICK_BASE = 0 then None
      else Some \<lfloor>round_double M (Math_log M price / Math_log M TICK_BASE)\<rfloor>)"

definition tickToSqrtPriceX96 :: "js_math \<Rightarrow> int \<Rightarrow> js_error + int" where
  "tickToSqrtPriceX96 M tick =
     (let price = tickToPrice M tick;
          sqrtPrice = Math_sqrt M price;
          sqrtPriceX96 = round_double M (sqrtPrice * Math_pow M 2 96)
      in JSBI_BigInt (Number_toString \<lfloor>sqrtPriceX96\<rfloor>))"

text \<open>
  \<open>nearestUsableTick\<close>. With \<open>tickSpacing = 0\<close> the quotient is infinite or \<open>NaN\<close>, its
  product with \<open>0\<close> is \<open>NaN\<close>, both comparisons are false and \<open>NaN\<close> is returned.
\<close>

definition nearestUsableTick :: "int \<Rightarrow> int \<Rightarrow> int option" where
  "nearestUsableTick tick tickSpacing =
     (if tickSpacing = 0 then None
      else
        let rounded = Math_round (of_int tick / of_int tickSpacing) * tickSpacing in
        if rounded < MIN_TICK then Some (MIN_TICK + tickSpacing)
        else if rounded > MAX_TICK then Some (MAX_TICK - tickSpacing)
        else Some rounded)"

definition isValidTick :: "int \<Rightarrow> bool" where
  "isValidTick tick \<longleftrightarrow> tick \<ge> MIN_TICK \<and> tick \<le> MAX_TICK"

definition isUsableTick :: "int \<Rightarrow> int \<Rightarrow> bool" where
  "isUsableTick tick tickSpacing \<longleftrightarrow> js_rem tick tickSpacing = Some 0"


section \<open>constants/feeTiers.ts\<close>

text \<open>The \<open>tickSpacing\<close> field of the \<open>FEE_TIERS\<close> table; an unknown fee throws.\<close>

definition getTickSpacing :: "int \<Rightarrow> js_error + int" where
  "getTickSpacing fee =
     (if fee = 100 then Inr 1
      else if fee = 500 then Inr 10
      else if fee = 3000 then Inr 60
      else if fee = 10000 then Inr 200
      else Inl Error)"


section \<open>utils/tickUtils.ts\<close>

record tick_range =
  tickLower :: "int option"
  tickUpper :: "int option"

definition getFullRangeTicks :: "int \<Rightarrow> js_error + tick_range" where
  "getFullRangeTicks feeTier =
     bind_result (getTickSpacing feeTier) (\<lambda>tickSpacing.
     Inr \<lparr>tickLower = nearestUsableTick MIN_TICK tickSpacing,
          tickUpper = nearestUsableTick MAX_TICK tickSpacing\<rparr>)"

definition isPositionInRange :: "int \<Rightarrow> int \<Rightarrow> int \<Rightarrow> bool" where
  "isPositionInRange tickLower' tickUpper' currentTick \<longleftrightarrow>
     currentTick \<ge> tickLower' \<and> currentTick < tickUpper'"

record tick_validation =
  valid :: bool
  error :: "string option"

definition validateTicks :: "int \<Rightarrow> int \<Rightarrow> int \<Rightarrow> tick_validation" where
  "validateTicks tickLower' tickUpper' tickSpacing =
     (if tickLower' \<ge> tickUpper' then
        \<lparr>valid = False, error = Some ''tickLower must be less than tickUpper''\<rparr>
      else if tickLower' < MIN_TICK \<or> tickUpper' > MAX_TICK then
        \<lparr>valid = False, error = Some ''Ticks out of valid range''\<rparr>
      else if js_rem tickLower' tickSpacing \<noteq> Some 0 then
        \<lparr>valid = False, error = Some ''tickLower not aligned to tick spacing''\<rparr>
      else if js_rem tickUpper' tickSpacing \<noteq> Some 0 then
        \<lparr>valid = False, error = Some ''tickUpper not aligned to tick spacing''\<rparr>
      else \<lparr>valid = True, error = None\<rparr>)"


section \<open>utils/liquidityUtils.ts\<close>

definition Q96 :: int where
  "Q96 = 2 ^ 96"

definition getLiquidityForAmount0 :: "int \<Rightarrow> int \<Rightarrow> int \<Rightarrow> js_error + int" where
  "getLiquidityForAmount0 sqrtPriceAX96 sqrtPriceBX96 amount0' =
     bind_result (JSBI_divide (sqrtPriceAX96 * sqrtPriceBX96) Q96) (\<lambda>intermediate.
     JSBI_divide (amount0' * intermediate) (sqrtPriceBX96 - sqrtPriceAX96))"

definition getLiquidityForAmount1 :: "int \<Rightarrow> int \<Rightarrow> int \<Rightarrow> js_error + int" where
  "getLiquidityForAmount1 sqrtPriceAX96 sqrtPriceBX96 amount1' =
     JSBI_divide (amount1' * Q96) (sqrtPriceBX96 - sqrtPriceAX96)"

definition getAmount0ForLiquidity :: "int \<Rightarrow> int \<Rightarrow> int \<Rightarrow> js_error + int" where
  "getAmount0ForLiquidity sqrtPriceAX96 sqrtPriceBX96 liquidity =
     (let diff = sqrtPriceBX96 - sqrtPriceAX96 in
      JSBI_divide ((liquidity * diff) * Q96) (sqrtPriceAX96 * sqrtPriceBX96))"

definition getAmount1ForLiquidity :: "int \<Rightarrow> int \<Rightarrow> int \<Rightarrow> js_error + int" where
  "getAmount1ForLiquidity sqrtPriceAX96 sqrtPriceBX96 liquidity =
     (let diff = sqrtPriceBX96 - sqrtPriceAX96 in
      JSBI_divide (liquidity * diff) Q96)"

definition calculateLiquidityFromAmounts ::
  "string \<Rightarrow> string \<Rightarrow> string \<Rightarrow> string \<Rightarrow> string \<Rightarrow> js_error + string" where
  "calculateLiquidityFromAmounts sqrtPriceX96 sqrtPriceAX96 sqrtPriceBX96 amount0' amount1' =
     bind_result (JSBI_BigInt sqrtPriceX96) (\<lambda>sqrtPrice.
     bind_result (JSBI_BigInt sqrtPriceAX96) (\<lambda>sqrtPriceA.
     bind_result (JSBI_BigInt sqrtPriceBX96) (\<lambda>sqrtPriceB.
     bind_result (JSBI_BigInt amount0') (\<lambda>amt0.
     bind_result (JSBI_BigInt amount1') (\<lambda>amt1.
     bind_result
       (if sqrtPrice \<le> sqrtPriceA then getLiquidityForAmount0 sqrtPriceA sqrtPriceB amt0
        else if sqrtPrice < sqrtPriceB then
          bind_result (getLiquidityForAmount0 sqrtPrice sqrtPriceB amt0) (\<lambda>liquidity0.
          bind_result (getLiquidityForAmount1 sqrtPriceA sqrtPrice amt1) (\<lambda>liquidity1.
          Inr (if liquidity0 < liquidity1 then liquidity0 else liquidity1)))
        else getLiquidityForAmount1 sqrtPriceA sqrtPriceB amt1)
       (\<lambda>liquidity. Inr (JSBI_toString liquidity)))))))"

record token_amounts =
  amount0 :: string
  amount1 :: string

definition calculateAmountsFromLiquidity ::
  "string \<Rightarrow> string \<Rightarrow> string \<Rightarrow> string \<Rightarrow> js_error + token_amounts" where
  "calculateAmountsFromLiquidity sqrtPriceX96 sqrtPriceAX96 sqrtPriceBX96 liquidity =
     bind_result (JSBI_BigInt sqrtPriceX96) (\<lambda>sqrtPrice.
     bind_result (JSBI_BigInt sqrtPriceAX96) (\<lambda>sqrtPriceA.
     bind_result (JSBI_BigInt sqrtPriceBX96) (\<lambda>sqrtPriceB.
     bind_result (JSBI_BigInt liquidity) (\<lambda>liq.
     if sqrtPrice \<le> sqrtPriceA then
       bind_result (getAmount0ForLiquidity sqrtPriceA sqrtPriceB liq) (\<lambda>a0.
       Inr \<lparr>amount0 = JSBI_toString a0, amount1 = JSBI_toString 0\<rparr>)
     else if sqrtPrice < sqrtPriceB then
       bind_result (getAmount0ForLiquidity sqrtPrice sqrtPriceB liq) (\<lambda>a0.
       bind_result (getAmount1ForLiquidity sqrtPriceA sqrtPrice liq) (\<lambda>a1.
       Inr \<lparr>amount0 = JSBI_toString a0, amount1 = JSBI_toString a1\<rparr>))
     else
       bind_result (getAmount1ForLiquidity sqrtPriceA sqrtPriceB liq) (\<lambda>a1.
       Inr \<lparr>amount0 = JSBI_toString 0, amount1 = JSBI_toString a1\<rparr>)))))"

record position_fees =
  fees0 :: string
  fees1 :: string

definition calculateFees ::
  "string \<Rightarrow> string \<Rightarrow> string \<Rightarrow> string \<Rightarrow> string \<Rightarrow> js_error + position_fees" where
  "calculateFees feeGrowthInside0X128 feeGrowthInside1X128 liquidity
       feeGrowthInside0LastX128 feeGrowthInside1LastX128 =
     (let Q128 = (2 :: int) ^ 128 in
      bind_result (JSBI_BigInt feeGrowthInside0X128) (\<lambda>g0.
      bind_result (JSBI_BigInt feeGrowthInside0LastX128) (\<lambda>g0Last.
      let feeGrowth0 = g0 - g0Last in
      bind_result (JSBI_BigInt feeGrowthInside1X128) (\<lambda>g1.
      bind_result (JSBI_BigInt feeGrowthInside1LastX128) (\<lambda>g1Last.
      let feeGrowth1 = g1 - g1Last in
      bind_result (JSBI_BigInt liquidity) (\<lambda>liq.
      bind_result (JSBI_divide (feeGrowth0 * liq) Q128) (\<lambda>f0.
      bind_result (JSBI_divide (feeGrowth1 * liq) Q128) (\<lambda>f1.
      Inr \<lparr>fees0 = JSBI_toString f0, fees1 = JSBI_toString f1\<rparr>))))))))"


section \<open>What the theorems ask of the engine and of the inputs\<close>

text \<open>
  At the zero point the engine is exact: ECMAScript fixes \<open>x ** 0 = 1\<close> and
  \<open>Math.log(1) = +0\<close>; the IEEE square root of \<open>1\<close> is \<open>1\<close>; \<open>2^96\<close> and \<open>0\<close> are doubles.
\<close>

definition exact_at_zero_point :: "js_math \<Rightarrow> bool" where
  "exact_at_zero_point M \<longleftrightarrow>
     Math_pow M TICK_BASE 0 = 1 \<and> Math_log M 1 = 0 \<and> Math_log M TICK_BASE \<noteq> 0 \<and>
     Math_sqrt M 1 = 1 \<and> Math_pow M 2 96 = 2 ^ 96 \<and>
     round_double M 0 = 0 \<and> round_double M (2 ^ 96) = 2 ^ 96"

text \<open>
  On the valid ticks \<open>Math.pow\<close> is within a relative error of \<open>2^-20\<close> of the exact power
  (an engine's error is a few units in the 53rd bit).
\<close>

definition pow_accurate :: "js_math \<Rightarrow> bool" where
  "pow_accurate M \<longleftrightarrow>
     (\<forall>t::int. MIN_TICK \<le> t \<and> t \<le> MAX_TICK \<longrightarrow>
        \<bar>Math_pow M TICK_BASE (of_int t) - TICK_BASE powi t\<bar> \<le> TICK_BASE powi t / 2 ^ 20)"

text \<open>The exact real functions, an engine without rounding.\<close>

definition real_math :: js_math where
  "real_math = \<lparr>Math_pow = (\<lambda>x y. x powr y), Math_log = ln, Math_sqrt = sqrt,
                 round_double = (\<lambda>x. x)\<rparr>"

text \<open>
  Modelled from the spec: \<open>sqrtPriceForTick\<close> is named by the spec's out-of-range scenario
  and is no function of the source; section 4.2 of the spec gives the square-root price of a
  tick as \<open>sqrt(1.0001^tick) * 2^96\<close> truncated to an integer.
\<close>

definition sqrtPriceForTick :: "int \<Rightarrow> int" where
  "sqrtPriceForTick tick = \<lfloor>sqrt ((10001 / 10000) powi tick) * 2 ^ 96\<rfloor>"


section \<open>Facts about the JavaScript operators\<close>

lemma js_rem_zero_iff: "js_rem a b = Some 0 \<longleftrightarrow> b \<noteq> 0 \<and> b dvd a"
proof (cases "b = 0")
  case True
  then show ?thesis by (simp add: js_rem_def)
next
  case False
  have "a smod b = 0 \<longleftrightarrow> \<bar>a\<bar> mod \<bar>b\<bar> = 0"
    by (auto simp add: signed_modulo_int_def sgn_if)
  also have "\<dots> \<longleftrightarrow> b dvd a"
    by (simp add: mod_eq_0_iff_dvd)
  finally show ?thesis using False by (simp add: js_rem_def)
qed

lemma Math_round_quotient:
  assumes "s \<noteq> 0"
  shows "Math_round (of_int t / of_int s) = (2 * t + s) div (2 * s)"
proof -
  have "(of_int t / of_int s :: rat) + 1 / 2 = of_int (2 * t + s) / of_int (2 * s)"
    using assms by (simp add: field_simps)
  then show ?thesis
    unfolding Math_round_def by (simp only: floor_divide_of_int_eq)
qed

lemma Math_round_of_int: "Math_round (of_int k) = k"
proof -
  have "\<lfloor>(1 / 2 :: rat)\<rfloor> = 0"
    by (simp add: floor_eq_iff)
  then show ?thesis
    unfolding Math_round_def by (simp add: floor_add_int)
qed

lemma nearestUsableTick_int:
  "nearestUsableTick t s =
     (if s = 0 then None
      else if (2 * t + s) div (2 * s) * s < MIN_TICK then Some (MIN_TICK + s)
      else if (2 * t + s) div (2 * s) * s > MAX_TICK then Some (MAX_TICK - s)
      else Some ((2 * t + s) div (2 * s) * s))"
  by (simp add: nearestUsableTick_def Math_round_quotient Let_def)


section \<open>Facts about big integers and their strings\<close>

lemma bind_result_simps [simp]:
  "bind_result (Inl e) f = Inl e" "bind_result (Inr x) f = f x"
  by (simp_all add: bind_result_def)

lemma digit_cases:
  assumes "d < (10::nat)"
  obtains "d = 0" | "d = 1" | "d = 2" | "d = 3" | "d = 4" | "d = 5" | "d = 6" | "d = 7"
    | "d = 8" | "d = 9"
  using assms by atomize_elim arith

lemma digit_val_digit_char: "d < 10 \<Longrightarrow> digit_val (digit_char d) = Some d"
  by (erule digit_cases) (simp_all add: digit_val_def digit_char_def)

lemma digit_char_not_minus: "digit_char d \<noteq> CHR ''-''"
proof -
  have "d mod 10 < 10" by simp
  then show ?thesis
    unfolding digit_char_def by (rule digit_cases) simp_all
qed

lemma parse_digits_append:
  "parse_digits acc (xs @ ys) =
     (case parse_digits acc xs of None \<Rightarrow> None | Some a \<Rightarrow> parse_digits a ys)"
  by (induction xs arbitrary: acc) (auto split: option.splits)

lemma parse_digits_decimal: "parse_digits 0 (decimal n) = Some n"
proof (induction n rule: decimal.induct)
  case (1 n)
  show ?case
  proof (cases "n < 10")
    case True
    then show ?thesis
      by (subst decimal.simps) (simp add: digit_val_digit_char)
  next
    case False
    with 1 have "parse_digits 0 (decimal (n div 10)) = Some (n div 10)"
      by simp
    with False show ?thesis
      by (subst decimal.simps) (simp add: parse_digits_append digit_val_digit_char)
  qed
qed

lemma decimal_first: "\<exists>c cs. decimal n = c # cs \<and> c \<noteq> CHR ''-''"
proof (induction n rule: decimal.induct)
  case (1 n)
  show ?case
  proof (cases "n < 10")
    case True
    then show ?thesis
      by (subst decimal.simps) (simp add: digit_char_not_minus)
  next
    case False
    with 1 obtain c cs where "decimal (n div 10) = c # cs" "c \<noteq> CHR ''-''"
      by blast
    with False show ?thesis
      by (subst decimal.simps) simp
  qed
qed

text \<open>Reading back what \<open>toString\<close> wrote gives the same big integer.\<close>

lemma JSBI_BigInt_toString: "JSBI_BigInt (JSBI_toString x) = Inr x"
proof -
  obtain c cs where d: "decimal (nat \<bar>x\<bar>) = c # cs" "c \<noteq> CHR ''-''"
    using decimal_first by blast
  have p: "parse_digits 0 (c # cs) = Some (nat \<bar>x\<bar>)"
    using parse_digits_decimal [of "nat \<bar>x\<bar>"] d by simp
  show ?thesis
  proof (cases "x < 0")
    case True
    then have "JSBI_toString x = CHR ''-'' # c # cs"
      using d by (simp add: JSBI_toString_def abs_if)
    then show ?thesis
      using p True unfolding JSBI_BigInt_def by simp
  next
    case False
    then have "JSBI_toString x = c # cs"
      using d by (simp add: JSBI_toString_def abs_if)
    then show ?thesis
      using p d False unfolding JSBI_BigInt_def by simp
  qed
qed

lemma JSBI_toString_zero: "JSBI_toString 0 = ''0''"
  by (simp add: JSBI_toString_def decimal.simps digit_char_def)

lemma JSBI_toString_negative: "hd (JSBI_toString x) = CHR ''-'' \<longleftrightarrow> x < 0"
proof -
  obtain c cs where d: "decimal (nat x) = c # cs" "c \<noteq> CHR ''-''"
    using decimal_first by blast
  then show ?thesis
    by (simp add: JSBI_toString_def)
qed

lemma sdiv_nonneg: "0 \<le> x \<Longrightarrow> 0 < y \<Longrightarrow> x sdiv y = x div (y :: int)"
  by (simp add: signed_divide_int_def sgn_if)

lemma sdiv_neg: "x < 0 \<Longrightarrow> 0 < y \<Longrightarrow> x sdiv y = - ((- x) div (y :: int))"
  by (simp add: signed_divide_int_def sgn_if)


section \<open>Range membership\<close>

text \<open>
  Claim C7. A position's range is half-open: for ticks \<open>L < U\<close> the lower tick \<open>L\<close> is in
  range and the upper tick \<open>U\<close> is not, and a current tick \<open>c\<close> is in range exactly when
  \<open>L \<le> c\<close> and \<open>c < U\<close>.
\<close>

theorem isPositionInRange_half_open:
  "L < U \<Longrightarrow>
     isPositionInRange L U L \<and> \<not> isPositionInRange L U U \<and>
     (\<forall>c. isPositionInRange L U c \<longleftrightarrow> L \<le> c \<and> c < U)"
  by (simp add: isPositionInRange_def)

theorem isPositionInRange_half_open_witness:
  "(- 60 :: int) < 60 \<and> isPositionInRange (- 60) 60 (- 60) \<and> \<not> isPositionInRange (- 60) 60 60"
  using isPositionInRange_half_open [of "- 60" 60] by simp

section \<open>Tick validation\<close>

text \<open>With a zero tick spacing the remainder is \<open>NaN\<close> and the lower tick is reported.\<close>

lemma validateTicks_zero_spacing:
  "L < U \<Longrightarrow> MIN_TICK \<le> L \<Longrightarrow> U \<le> MAX_TICK \<Longrightarrow>
     validateTicks L U 0 =
       \<lparr>valid = False, error = Some ''tickLower not aligned to tick spacing''\<rparr>"
  by (simp add: validateTicks_def js_rem_def)

text \<open>
  Claim C9. \<open>validateTicks\<close> checks in this order that \<open>tickLower < tickUpper\<close>, that both
  ticks lie in \<open>[MIN_TICK, MAX_TICK]\<close>, that \<open>tickLower\<close> is divisible by the tick spacing
  and that \<open>tickUpper\<close> is; it returns the reason of the first check that fails and nothing
  else, and it returns \<open>{valid: true}\<close> without an error exactly when all four checks pass.
  Divisible is \<open>tick % tickSpacing === 0\<close>, the source's \<open>isUsableTick\<close>: the spacing is
  not zero and divides the tick.
\<close>

theorem validateTicks_first_failure:
  "validateTicks L U s =
     (if \<not> L < U then
        \<lparr>valid = False, error = Some ''tickLower must be less than tickUpper''\<rparr>
      else if \<not> (isValidTick L \<and> isValidTick U) then
        \<lparr>valid = False, error = Some ''Ticks out of valid range''\<rparr>
      else if \<not> isUsableTick L s then
        \<lparr>valid = False, error = Some ''tickLower not aligned to tick spacing''\<rparr>
      else if \<not> isUsableTick U s then
        \<lparr>valid = False, error = Some ''tickUpper not aligned to tick spacing''\<rparr>
      else \<lparr>valid = True, error = None\<rparr>) \<and>
   (validateTicks L U s = \<lparr>valid = True, error = None\<rparr> \<longleftrightarrow>
      L < U \<and> isValidTick L \<and> isValidTick U \<and> isUsableTick L s \<and> isUsableTick U s) \<and>
   (valid (validateTicks L U s) \<longleftrightarrow>
      L < U \<and> isValidTick L \<and> isValidTick U \<and> isUsableTick L s \<and> isUsableTick U s) \<and>
   (isUsableTick L s \<longleftrightarrow> s \<noteq> 0 \<and> s dvd L) \<and> (isUsableTick U s \<longleftrightarrow> s \<noteq> 0 \<and> s dvd U)"
  by (auto simp add: validateTicks_def isUsableTick_def js_rem_zero_iff isValidTick_def)

theorem validateTicks_first_failure_witness:
  "validateTicks 120 (- 120) 60 =
     \<lparr>valid = False, error = Some ''tickLower must be less than tickUpper''\<rparr> \<and>
   validateTicks (- 100) 887280 60 =
     \<lparr>valid = False, error = Some ''Ticks out of valid range''\<rparr> \<and>
   validateTicks (- 100) 130 60 =
     \<lparr>valid = False, error = Some ''tickLower not aligned to tick spacing''\<rparr> \<and>
   validateTicks (- 120) 130 60 =
     \<lparr>valid = False, error = Some ''tickUpper not aligned to tick spacing''\<rparr> \<and>
   validateTicks (- 120) 120 60 = \<lparr>valid = True, error = None\<rparr>"
  using validateTicks_first_failure [of 120 "- 120" 60]
    validateTicks_first_failure [of "- 100" 887280 60]
    validateTicks_first_failure [of "- 100" 130 60]
    validateTicks_first_failure [of "- 120" 130 60]
    validateTicks_first_failure [of "- 120" 120 60]
  by (simp add: isValidTick_def MIN_TICK_def MAX_TICK_def)


section \<open>Snapping a tick to the tick spacing\<close>

text \<open>
  Claim C2, as the spec states it: the result is \<open>round(t/s) * s\<close> clamped into
  \<open>[MIN_TICK + s, MAX_TICK - s]\<close> and never one of the bounds. The source compares the
  rounded value with the bounds themselves: at \<open>t = MIN_TICK\<close>, \<open>s = 1\<close> the rounded value
  is \<open>MIN_TICK\<close>, which is returned, where the clamp would give \<open>MIN_TICK + 1\<close>.
\<close>

theorem nearestUsableTick_returns_bound:
  "nearestUsableTick MIN_TICK 1 = Some MIN_TICK \<and> MIN_TICK < MIN_TICK + 1"
  by (simp add: nearestUsableTick_int MIN_TICK_def MAX_TICK_def)

text \<open>
  Claim C2, amended. For every tick \<open>t\<close> and positive spacing \<open>s\<close>: when \<open>round(t/s) * s\<close>
  lies in \<open>[MIN_TICK, MAX_TICK]\<close>, bounds included, \<open>nearestUsableTick\<close> returns it
  unchanged (so the result is \<open>MIN_TICK\<close> or \<open>MAX_TICK\<close> when the rounded value is); and for
  \<open>s \<le> MAX_TICK - MIN_TICK\<close> the result always lies in \<open>[MIN_TICK, MAX_TICK]\<close>.
\<close>

theorem nearestUsableTick_within_bounds:
  assumes "0 < s"
  shows "(MIN_TICK \<le> Math_round (of_int t / of_int s) * s \<and>
          Math_round (of_int t / of_int s) * s \<le> MAX_TICK \<longrightarrow>
            nearestUsableTick t s = Some (Math_round (of_int t / of_int s) * s)) \<and>
         (s \<le> MAX_TICK - MIN_TICK \<longrightarrow>
            (\<exists>r. nearestUsableTick t s = Some r \<and> MIN_TICK \<le> r \<and> r \<le> MAX_TICK))"
  using assms by (auto simp add: nearestUsableTick_def Let_def)

theorem nearestUsableTick_within_bounds_witness:
  "(0 :: int) < 60 \<and> nearestUsableTick 100 60 = Some 120 \<and>
   (\<exists>r. nearestUsableTick (- 900000) 60 = Some r \<and> MIN_TICK \<le> r \<and> r \<le> MAX_TICK)"
proof -
  have r: "Math_round (of_int 100 / of_int 60) * 60 = 120"
    using Math_round_quotient [of 60 100] by simp
  have "nearestUsableTick 100 60 = Some 120"
    using nearestUsableTick_within_bounds [of 60 100] unfolding r
    by (simp add: MIN_TICK_def MAX_TICK_def)
  moreover have "\<exists>r. nearestUsableTick (- 900000) 60 = Some r \<and> MIN_TICK \<le> r \<and> r \<le> MAX_TICK"
    using nearestUsableTick_within_bounds [of 60 "- 900000"]
    by (simp add: MIN_TICK_def MAX_TICK_def)
  ultimately show ?thesis by simp
qed

text \<open>
  Where the rounded value lies within the bounds, snapping a second time changes nothing.
\<close>

lemma nearestUsableTick_idem_in_bounds:
  assumes "s \<noteq> 0"
    and "MIN_TICK \<le> Math_round (of_int t / of_int s) * s"
    and "Math_round (of_int t / of_int s) * s \<le> MAX_TICK"
  shows "Option.bind (nearestUsableTick t s) (\<lambda>r. nearestUsableTick r s) = nearestUsableTick t s"
proof -
  define k where "k = Math_round (of_int t / of_int s)"
  have first: "nearestUsableTick t s = Some (k * s)"
    using assms by (simp add: nearestUsableTick_def Let_def k_def)
  have "(of_int (k * s) / of_int s :: rat) = of_int k"
    using assms(1) by simp
  then have "Math_round (of_int (k * s) / of_int s) = k"
    by (simp only: Math_round_of_int)
  then have "nearestUsableTick (k * s) s = Some (k * s)"
    using assms by (simp add: nearestUsableTick_def Let_def k_def)
  with first show ?thesis by simp
qed

text \<open>
  Claim C3: snapping is idempotent for the spacings 1, 10, 60 and 200. The source breaks it:
  a rounded value below \<open>MIN_TICK\<close> is replaced by \<open>MIN_TICK + s\<close>, which for spacing 60 is
  \<open>-887212\<close>, no multiple of 60; snapping that again gives \<open>-887220\<close>. The input is the one
  \<open>getFullRangeTicks\<close> passes for the 0.3% tier, and the range it returns is rejected by
  \<open>validateTicks\<close>.
\<close>

theorem nearestUsableTick_not_idempotent:
  "nearestUsableTick MIN_TICK 60 = Some (- 887212) \<and>
   nearestUsableTick (- 887212) 60 = Some (- 887220) \<and>
   \<not> isUsableTick (- 887212) 60 \<and>
   getFullRangeTicks 3000 = Inr \<lparr>tickLower = Some (- 887212), tickUpper = Some 887212\<rparr> \<and>
   validateTicks (- 887212) 887212 60 =
     \<lparr>valid = False, error = Some ''tickLower not aligned to tick spacing''\<rparr>"
  by (simp add: nearestUsableTick_int getFullRangeTicks_def getTickSpacing_def
      bind_result_def validateTicks_def isUsableTick_def js_rem_zero_iff MIN_TICK_def MAX_TICK_def)

section \<open>Liquidity from amounts\<close>

text \<open>
  Claim C5. When \<open>sqrtPriceA < sqrtPrice < sqrtPriceB\<close>, \<open>calculateLiquidityFromAmounts\<close>
  returns the minimum of the liquidity that \<open>amount0\<close> alone gives over
  \<open>[sqrtPrice, sqrtPriceB]\<close> and the liquidity that \<open>amount1\<close> alone gives over
  \<open>[sqrtPriceA, sqrtPrice]\<close>.
\<close>

theorem calculateLiquidityFromAmounts_in_range_min:
  assumes "sqrtPriceA < sqrtPrice" and "sqrtPrice < sqrtPriceB"
  shows "\<exists>liquidity0 liquidity1.
     getLiquidityForAmount0 sqrtPrice sqrtPriceB amt0 = Inr liquidity0 \<and>
     getLiquidityForAmount1 sqrtPriceA sqrtPrice amt1 = Inr liquidity1 \<and>
     liquidity0 = (amt0 * ((sqrtPrice * sqrtPriceB) sdiv 2 ^ 96)) sdiv (sqrtPriceB - sqrtPrice) \<and>
     liquidity1 = (amt1 * 2 ^ 96) sdiv (sqrtPrice - sqrtPriceA) \<and>
     calculateLiquidityFromAmounts (JSBI_toString sqrtPrice) (JSBI_toString sqrtPriceA)
         (JSBI_toString sqrtPriceB) (JSBI_toString amt0) (JSBI_toString amt1) =
       Inr (JSBI_toString (min liquidity0 liquidity1))"
  using assms
  by (simp add: calculateLiquidityFromAmounts_def getLiquidityForAmount0_def
      getLiquidityForAmount1_def JSBI_divide_def Q96_def JSBI_BigInt_toString min_def)

theorem calculateLiquidityFromAmounts_in_range_min_witness:
  "(78833030112140176575862854578 :: int) < 79228162514264337593543950336 \<and>
   (79228162514264337593543950336 :: int) < 79625275426524748796330556127 \<and>
   calculateLiquidityFromAmounts (JSBI_toString 79228162514264337593543950336)
     (JSBI_toString 78833030112140176575862854578) (JSBI_toString 79625275426524748796330556127)
     (JSBI_toString 1000000000000000000) (JSBI_toString 3000000000000000000) =
   Inr (JSBI_toString 200510416479002803287)"
  using calculateLiquidityFromAmounts_in_range_min
    [of 78833030112140176575862854578 79228162514264337593543950336
        79625275426524748796330556127 1000000000000000000 3000000000000000000]
  by (simp add: sdiv_nonneg)


section \<open>Amounts from liquidity\<close>

text \<open>
  Claim C6. For every liquidity and every range \<open>sqrtPriceA < sqrtPriceB\<close> of square-root
  prices (a square-root price is not zero: it is bounded below by \<open>MIN_SQRT_RATIO\<close>),
  \<open>calculateAmountsFromLiquidity\<close> returns \<open>amount1 = 0\<close> when \<open>sqrtPrice \<le> sqrtPriceA\<close>
  and \<open>amount0 = 0\<close> when \<open>sqrtPrice \<ge> sqrtPriceB\<close>: outside the range at most one amount
  is nonzero.
\<close>

theorem calculateAmountsFromLiquidity_out_of_range:
  assumes "sqrtPriceA \<noteq> 0" and "sqrtPriceB \<noteq> 0" and "sqrtPriceA < sqrtPriceB"
  shows "(sqrtPrice \<le> sqrtPriceA \<longrightarrow>
           (\<exists>r. calculateAmountsFromLiquidity (JSBI_toString sqrtPrice) (JSBI_toString sqrtPriceA)
                  (JSBI_toString sqrtPriceB) (JSBI_toString liq) = Inr r \<and> amount1 r = ''0'')) \<and>
         (sqrtPrice \<ge> sqrtPriceB \<longrightarrow>
           (\<exists>r. calculateAmountsFromLiquidity (JSBI_toString sqrtPrice) (JSBI_toString sqrtPriceA)
                  (JSBI_toString sqrtPriceB) (JSBI_toString liq) = Inr r \<and> amount0 r = ''0''))"
  using assms
  by (simp add: calculateAmountsFromLiquidity_def getAmount0ForLiquidity_def
      getAmount1ForLiquidity_def JSBI_divide_def Q96_def JSBI_BigInt_toString JSBI_toString_zero)

theorem calculateAmountsFromLiquidity_out_of_range_witness:
  "(78833030112140176575862854578 :: int) \<noteq> 0 \<and>
   (79625275426524748796330556127 :: int) \<noteq> 0 \<and>
   (78833030112140176575862854578 :: int) < 79625275426524748796330556127 \<and>
   (\<exists>r. calculateAmountsFromLiquidity (JSBI_toString 4295128739)
          (JSBI_toString 78833030112140176575862854578)
          (JSBI_toString 79625275426524748796330556127) (JSBI_toString 1000000000000000000) =
            Inr r \<and>
        amount1 r = ''0'') \<and>
   (\<exists>r. calculateAmountsFromLiquidity (JSBI_toString 80024378775772204256025656562)
          (JSBI_toString 78833030112140176575862854578)
          (JSBI_toString 79625275426524748796330556127) (JSBI_toString 1000000000000000000) =
            Inr r \<and>
        amount0 r = ''0'')"
  using calculateAmountsFromLiquidity_out_of_range
    [of 78833030112140176575862854578 79625275426524748796330556127 4295128739
        1000000000000000000]
    calculateAmountsFromLiquidity_out_of_range
    [of 78833030112140176575862854578 79625275426524748796330556127
        80024378775772204256025656562 1000000000000000000]
  by simp

text \<open>With a zero bound the branch below the range divides by zero and throws.\<close>

lemma calculateAmountsFromLiquidity_zero_bound:
  "calculateAmountsFromLiquidity ''0'' ''0'' ''79625275426524748796330556127''
     ''1000000000000000000'' = Inl RangeError"
  by (simp add: calculateAmountsFromLiquidity_def JSBI_BigInt_def digit_val_def
      getAmount0ForLiquidity_def JSBI_divide_def)

text \<open>Above the range the position is all token1, whatever the bounds.\<close>

lemma calculateAmountsFromLiquidity_above:
  assumes "sqrtPriceA < sqrtPriceB" and "sqrtPriceB \<le> sqrtPrice" and "0 < L"
  shows "calculateAmountsFromLiquidity (JSBI_toString sqrtPrice) (JSBI_toString sqrtPriceA)
           (JSBI_toString sqrtPriceB) (JSBI_toString L) =
         Inr \<lparr>amount0 = ''0'',
              amount1 = JSBI_toString (L * (sqrtPriceB - sqrtPriceA) div 2 ^ 96)\<rparr>"
  using assms
  by (simp add: calculateAmountsFromLiquidity_def getAmount0ForLiquidity_def
      getAmount1ForLiquidity_def JSBI_divide_def Q96_def JSBI_BigInt_toString JSBI_toString_zero
      sdiv_nonneg)

section \<open>Uncollected fees\<close>

lemma fee_not_wrapped:
  fixes g gLast liq :: int
  assumes "g < gLast" and "0 < liq" and "0 \<le> g" and "gLast < 2 ^ 256"
  shows "- ((gLast - g) * liq div 2 ^ 128) \<noteq> ((g - gLast) mod 2 ^ 256) * liq div 2 ^ 128"
proof
  define d where "d = gLast - g"
  define w where "w = (g - gLast) mod 2 ^ 256"
  assume "- ((gLast - g) * liq div 2 ^ 128) = ((g - gLast) mod 2 ^ 256) * liq div 2 ^ 128"
  then have eq: "- (d * liq div 2 ^ 128) = w * liq div 2 ^ 128"
    by (simp add: d_def w_def)
  have d: "0 < d" "d < 2 ^ 256"
    using assms by (simp_all add: d_def)
  have "(g - gLast) mod 2 ^ 256 = (g - gLast + 2 ^ 256) mod 2 ^ 256"
    by simp
  also have "\<dots> = g - gLast + 2 ^ 256"
    using d by (intro mod_pos_pos_trivial) (simp_all add: d_def)
  finally have w: "w = 2 ^ 256 - d"
    by (simp add: w_def d_def)
  have w0: "0 < w"
    using w d by simp
  have "0 \<le> d * liq div 2 ^ 128"
    using d(1) assms(2) by (intro pos_imp_zdiv_nonneg_iff [THEN iffD2]) simp_all
  moreover have "0 \<le> w * liq div 2 ^ 128"
    using w0 assms(2) by (intro pos_imp_zdiv_nonneg_iff [THEN iffD2]) simp_all
  ultimately have z: "d * liq div 2 ^ 128 = 0" "w * liq div 2 ^ 128 = 0"
    using eq by linarith+
  have dl: "0 \<le> d * liq" and wl: "0 \<le> w * liq"
    using d(1) w0 assms(2) by simp_all
  have "d * liq < 2 ^ 128"
    using z(1) dl d(1) assms(2) by (auto simp add: zdiv_eq_0_iff)
  moreover have "w * liq < 2 ^ 128"
    using z(2) wl w0 assms(2) by (auto simp add: zdiv_eq_0_iff)
  ultimately have "d * liq + w * liq < 2 ^ 129"
    by simp
  then have "2 ^ 256 * liq < 2 ^ 129"
    using w by (simp add: algebra_simps)
  moreover have "(2::int) ^ 256 * 1 \<le> 2 ^ 256 * liq"
    using assms(2) by (intro mult_left_mono) simp_all
  ultimately show False
    by simp
qed

lemma fee_of_negative_delta:
  fixes g gLast liq :: int
  assumes "g < gLast" and "0 < liq"
  shows "(g - gLast) * liq sdiv 2 ^ 128 = - ((gLast - g) * liq div 2 ^ 128)"
    and "(g - gLast) * liq sdiv 2 ^ 128 \<le> 0"
    and "(g - gLast) * liq sdiv 2 ^ 128 < 0 \<longleftrightarrow> 2 ^ 128 \<le> (gLast - g) * liq"
proof -
  have "(g - gLast) * liq < 0"
    using assms by (simp add: mult_neg_pos)
  then show eq: "(g - gLast) * liq sdiv 2 ^ 128 = - ((gLast - g) * liq div 2 ^ 128)"
    by (simp add: sdiv_neg algebra_simps)
  have nn: "0 \<le> (gLast - g) * liq"
    using assms by simp
  then have q: "0 \<le> (gLast - g) * liq div 2 ^ 128"
    by (intro pos_imp_zdiv_nonneg_iff [THEN iffD2]) simp_all
  then show "(g - gLast) * liq sdiv 2 ^ 128 \<le> 0"
    unfolding eq by simp
  have "(gLast - g) * liq div 2 ^ 128 = 0 \<longleftrightarrow> (gLast - g) * liq < 2 ^ 128"
    using nn assms by (auto simp add: zdiv_eq_0_iff)
  then show "(g - gLast) * liq sdiv 2 ^ 128 < 0 \<longleftrightarrow> 2 ^ 128 \<le> (gLast - g) * liq"
    unfolding eq using q by linarith
qed

lemma calculateFees_value:
  "calculateFees (JSBI_toString g0) (JSBI_toString g1) (JSBI_toString liq)
       (JSBI_toString g0Last) (JSBI_toString g1Last) =
     Inr \<lparr>fees0 = JSBI_toString ((g0 - g0Last) * liq sdiv 2 ^ 128),
          fees1 = JSBI_toString ((g1 - g1Last) * liq sdiv 2 ^ 128)\<rparr>"
  by (simp add: calculateFees_def JSBI_BigInt_toString JSBI_divide_def Let_def)

text \<open>
  Claim C10, as stated: whenever a current fee-growth snapshot is smaller than the last one
  and the liquidity is positive, the returned fee string is negative. \<open>JSBI.divide\<close>
  truncates towards zero, so a small negative product gives \<open>"0"\<close>: with snapshots \<open>0\<close>
  and \<open>1\<close> and liquidity \<open>10^18\<close> the fee for token0 is \<open>"0"\<close>.
\<close>

theorem calculateFees_small_delta_not_negative:
  "calculateFees ''0'' ''0'' ''1000000000000000000'' ''1'' ''0'' =
     Inr \<lparr>fees0 = ''0'', fees1 = ''0''\<rparr>"
  by (simp add: calculateFees_def JSBI_BigInt_def digit_val_def JSBI_divide_def
      JSBI_toString_zero signed_divide_int_def)

text \<open>
  Claim C10, amended. \<open>calculateFees\<close> subtracts the snapshots as plain signed big
  integers. With positive liquidity and a current snapshot smaller than the last one, the fee
  is the quotient truncated towards zero, \<open>- ((last - current) * liquidity div 2^128)\<close>:
  it is never positive, its string is negative exactly when
  \<open>(last - current) * liquidity \<ge> 2^128\<close> (and \<open>"0"\<close> otherwise), and for snapshots in
  \<open>[0, 2^256)\<close> it is never the amount that wrapping the difference modulo \<open>2^256\<close>
  would give.
\<close>

theorem calculateFees_signed_delta:
  assumes "0 < liq"
  shows "calculateFees (JSBI_toString g0) (JSBI_toString g1) (JSBI_toString liq)
           (JSBI_toString g0Last) (JSBI_toString g1Last) =
         Inr \<lparr>fees0 = JSBI_toString ((g0 - g0Last) * liq sdiv 2 ^ 128),
              fees1 = JSBI_toString ((g1 - g1Last) * liq sdiv 2 ^ 128)\<rparr> \<and>
     (g0 < g0Last \<longrightarrow>
        (g0 - g0Last) * liq sdiv 2 ^ 128 = - ((g0Last - g0) * liq div 2 ^ 128) \<and>
        (g0 - g0Last) * liq sdiv 2 ^ 128 \<le> 0 \<and>
        (hd (JSBI_toString ((g0 - g0Last) * liq sdiv 2 ^ 128)) = CHR ''-'' \<longleftrightarrow>
           2 ^ 128 \<le> (g0Last - g0) * liq) \<and>
        (0 \<le> g0 \<and> g0Last < 2 ^ 256 \<longrightarrow>
           (g0 - g0Last) * liq sdiv 2 ^ 128 \<noteq> ((g0 - g0Last) mod 2 ^ 256) * liq div 2 ^ 128)) \<and>
     (g1 < g1Last \<longrightarrow>
        (g1 - g1Last) * liq sdiv 2 ^ 128 = - ((g1Last - g1) * liq div 2 ^ 128) \<and>
        (g1 - g1Last) * liq sdiv 2 ^ 128 \<le> 0 \<and>
        (hd (JSBI_toString ((g1 - g1Last) * liq sdiv 2 ^ 128)) = CHR ''-'' \<longleftrightarrow>
           2 ^ 128 \<le> (g1Last - g1) * liq) \<and>
        (0 \<le> g1 \<and> g1Last < 2 ^ 256 \<longrightarrow>
           (g1 - g1Last) * liq sdiv 2 ^ 128 \<noteq> ((g1 - g1Last) mod 2 ^ 256) * liq div 2 ^ 128))"
proof -
  have side: "(g - gLast) * liq sdiv 2 ^ 128 = - ((gLast - g) * liq div 2 ^ 128) \<and>
        (g - gLast) * liq sdiv 2 ^ 128 \<le> 0 \<and>
        (hd (JSBI_toString ((g - gLast) * liq sdiv 2 ^ 128)) = CHR ''-'' \<longleftrightarrow>
           2 ^ 128 \<le> (gLast - g) * liq) \<and>
        (0 \<le> g \<and> gLast < 2 ^ 256 \<longrightarrow>
           (g - gLast) * liq sdiv 2 ^ 128 \<noteq> ((g - gLast) mod 2 ^ 256) * liq div 2 ^ 128)"
    if "g < gLast" for g gLast :: int
    using fee_of_negative_delta [OF that assms] fee_not_wrapped [OF that assms]
    by (simp only: JSBI_toString_negative) blast
  show ?thesis
    using side [of g0 g0Last] side [of g1 g1Last] calculateFees_value by blast
qed

theorem calculateFees_signed_delta_witness:
  "(0 :: int) < 1000000000000000000000 \<and>
   calculateFees (JSBI_toString 0) (JSBI_toString 5) (JSBI_toString 1000000000000000000000)
     (JSBI_toString 340282366920938463463374607431768211456) (JSBI_toString 0) =
   Inr \<lparr>fees0 = JSBI_toString (- 1000000000000000000000), fees1 = JSBI_toString 0\<rparr> \<and>
   hd (JSBI_toString (- 1000000000000000000000)) = CHR ''-''"
  using calculateFees_signed_delta
    [of 1000000000000000000000 0 5 340282366920938463463374607431768211456 0]
  by (simp add: signed_divide_int_def)

section \<open>Tick prices\<close>

lemma pow_gap: "(1 + 1 / 2 ^ 20) < TICK_BASE * (1 - 1 / 2 ^ 20)"
  by (simp add: TICK_BASE_def)

lemma TICK_BASE_gt_1: "1 < TICK_BASE"
  by (simp add: TICK_BASE_def)

lemma pow_accurate_real_math: "pow_accurate real_math"
proof -
  have "TICK_BASE powr real_of_int t = TICK_BASE powi t" for t
    using TICK_BASE_gt_1 by (intro powr_real_of_int') simp_all
  moreover have "0 \<le> TICK_BASE powi t" for t
    using TICK_BASE_gt_1 by simp
  ultimately show ?thesis
    by (simp add: pow_accurate_def real_math_def)
qed

text \<open>
  Claim C8. For all ticks \<open>t1 < t2\<close> in \<open>[MIN_TICK, MAX_TICK]\<close>,
  \<open>tickToPrice(t1) < tickToPrice(t2)\<close>, for every engine whose \<open>Math.pow\<close> is accurate
  in the sense of \<open>pow_accurate\<close>: consecutive powers of \<open>1.0001\<close> differ by a factor that
  the rounding error cannot bridge.
\<close>

theorem tickToPrice_strictly_monotone:
  assumes "pow_accurate M" and "MIN_TICK \<le> t1" and "t1 < t2" and "t2 \<le> MAX_TICK"
  shows "tickToPrice M t1 < tickToPrice M t2"
proof -
  define e :: real where "e = 1 / 2 ^ 20"
  define b1 where "b1 = TICK_BASE powi t1"
  define b2 where "b2 = TICK_BASE powi t2"
  have b1: "0 < b1"
    using TICK_BASE_gt_1 by (simp add: b1_def)
  have "TICK_BASE powi (t1 + 1) \<le> TICK_BASE powi t2"
    using assms(3) TICK_BASE_gt_1 by (intro power_int_increasing) simp_all
  then have step: "TICK_BASE * b1 \<le> b2"
    using TICK_BASE_gt_1 by (simp add: power_int_add_1' b1_def b2_def)
  have "\<bar>tickToPrice M t1 - b1\<bar> \<le> b1 * e"
    using assms(1,2,3,4) unfolding pow_accurate_def tickToPrice_def b1_def e_def
    by (simp add: field_simps)
  then have up: "tickToPrice M t1 \<le> b1 * (1 + e)"
    by (simp add: algebra_simps abs_le_iff)
  have "\<bar>tickToPrice M t2 - b2\<bar> \<le> b2 * e"
    using assms(1,2,3,4) unfolding pow_accurate_def tickToPrice_def b2_def e_def
    by (simp add: field_simps)
  then have low: "b2 * (1 - e) \<le> tickToPrice M t2"
    by (simp add: algebra_simps abs_le_iff)
  have e1: "0 < 1 - e"
    by (simp add: e_def)
  have "b1 * (1 + e) < b1 * (TICK_BASE * (1 - e))"
    using pow_gap b1 unfolding e_def by (intro mult_strict_left_mono) simp_all
  also have "\<dots> = (TICK_BASE * b1) * (1 - e)"
    by simp
  also have "\<dots> \<le> b2 * (1 - e)"
    using step e1 by (intro mult_right_mono) simp_all
  finally show ?thesis
    using up low by linarith
qed

theorem tickToPrice_strictly_monotone_witness:
  "pow_accurate real_math \<and> MIN_TICK \<le> - 100 \<and> (- 100 :: int) < 100 \<and> 100 \<le> MAX_TICK \<and>
   tickToPrice real_math (- 100) < tickToPrice real_math 100"
  using tickToPrice_strictly_monotone [OF pow_accurate_real_math, of "- 100" 100]
    pow_accurate_real_math
  by (simp add: MIN_TICK_def MAX_TICK_def)


section \<open>The zero point\<close>

lemma bit_length_Q96: "bit_length 79228162514264337593543950336 = 97"
  by (simp add: bit_length.simps)

lemma shortest_decimal_Q96:
  "shortest_decimal 79228162514264337593543950336 = 79228162514264340000000000000"
  by (simp add: shortest_decimal_def shortest_at.simps reads_back_def bit_length_Q96 Let_def
      decimal.simps)

lemma Number_toString_Q96:
  "Number_toString 79228162514264337593543950336 = ''7.922816251426434e+28''"
  by (simp add: Number_toString_def shortest_decimal_Q96 decimal.simps digit_char_def
      strip_zeros_def Let_def)

lemma JSBI_BigInt_exponential: "JSBI_BigInt ''7.922816251426434e+28'' = Inl SyntaxError"
  by (simp add: JSBI_BigInt_def digit_val_def)

lemma exact_real_math: "exact_at_zero_point real_math"
  by (simp add: exact_at_zero_point_def real_math_def TICK_BASE_def)

text \<open>
  Claim C4: \<open>tickToPrice(0) = 1\<close>, \<open>priceToTick(1) = 0\<close> and \<open>tickToSqrtPriceX96(0) = 2^96\<close>.
  The first two hold. The third does not return: \<open>Math.floor(sqrtPriceX96)\<close> is the number
  \<open>2^96\<close>, a number from \<open>10^21\<close> on prints in exponential notation, here
  \<open>"7.922816251426434e+28"\<close>, and \<open>JSBI.BigInt\<close> throws a \<open>SyntaxError\<close> on that string.
\<close>

theorem tickToSqrtPriceX96_zero_point_throws:
  assumes "exact_at_zero_point M"
  shows "tickToPrice M 0 = 1 \<and> priceToTick M 1 = Some 0 \<and>
         tickToSqrtPriceX96 M 0 = Inl SyntaxError"
  using assms
  by (simp add: exact_at_zero_point_def tickToPrice_def priceToTick_def tickToSqrtPriceX96_def
      Number_toString_Q96 JSBI_BigInt_exponential)

theorem tickToSqrtPriceX96_zero_point_throws_witness:
  "exact_at_zero_point real_math \<and> tickToPrice real_math 0 = 1 \<and>
   priceToTick real_math 1 = Some 0 \<and> tickToSqrtPriceX96 real_math 0 = Inl SyntaxError"
  using tickToSqrtPriceX96_zero_point_throws [OF exact_real_math] exact_real_math
  by simp


section \<open>The out-of-range scenario\<close>

lemma sqrt_powi_even:
  assumes "0 < (x::real)"
  shows "sqrt (x powi (2 * int k)) = x ^ k" and "sqrt (x powi (- (2 * int k))) = (1 / x) ^ k"
proof -
  have "x powi (2 * int k) = (x ^ k)\<^sup>2"
    by (simp add: power_int_def nat_mult_distrib power_mult power2_eq_square
        flip: power_mult_distrib)
  then show "sqrt (x powi (2 * int k)) = x ^ k"
    using assms by simp
  have "x powi (- (2 * int k)) = ((1 / x) ^ k)\<^sup>2"
    by (simp add: power_int_def nat_mult_distrib power_mult power2_eq_square power_divide
        divide_simps flip: power_mult_distrib)
  then show "sqrt (x powi (- (2 * int k))) = (1 / x) ^ k"
    using assms by simp
qed

lemma floor_ratio_power:
  fixes a b N :: int
  assumes "0 < b" and "N * b ^ k \<le> a ^ k * 2 ^ 96" and "a ^ k * 2 ^ 96 < (N + 1) * b ^ k"
  shows "\<lfloor>(of_int a / of_int b :: real) ^ k * 2 ^ 96\<rfloor> = N"
proof -
  define n where "n = a ^ k * 2 ^ 96"
  define d where "d = b ^ k"
  have d: "0 < d"
    using assms(1) by (simp add: d_def)
  have eq: "(of_int a / of_int b :: real) ^ k * 2 ^ 96 = of_int n / of_int d"
    by (simp add: power_divide n_def d_def)
  have "real_of_int (N * d) \<le> of_int n"
    using assms(2) unfolding n_def d_def by (simp only: of_int_le_iff)
  then have lo: "of_int N \<le> (of_int n / of_int d :: real)"
    using d by (simp add: le_divide_eq)
  have "real_of_int n < of_int ((N + 1) * d)"
    using assms(3) unfolding n_def d_def by (simp only: of_int_less_iff)
  then have hi: "(of_int n / of_int d :: real) < of_int N + 1"
    using d by (simp add: divide_less_eq)
  show ?thesis
    unfolding eq using lo hi by (simp add: floor_unique)
qed

lemma sqrtPriceForTick_even:
  fixes N :: int
  assumes "N * 10000 ^ k \<le> 10001 ^ k * 2 ^ 96" and "10001 ^ k * 2 ^ 96 < (N + 1) * 10000 ^ k"
  shows "sqrtPriceForTick (2 * int k) = N"
proof -
  have "sqrtPriceForTick (2 * int k) = \<lfloor>(of_int 10001 / of_int 10000 :: real) ^ k * 2 ^ 96\<rfloor>"
    unfolding sqrtPriceForTick_def by (subst sqrt_powi_even(1)) simp_all
  also have "\<dots> = N"
    using assms by (intro floor_ratio_power) simp_all
  finally show ?thesis .
qed

lemma sqrtPriceForTick_minus_even:
  fixes N :: int
  assumes "N * 10001 ^ k \<le> 10000 ^ k * 2 ^ 96" and "10000 ^ k * 2 ^ 96 < (N + 1) * 10001 ^ k"
  shows "sqrtPriceForTick (- (2 * int k)) = N"
proof -
  have "sqrtPriceForTick (- (2 * int k)) =
      \<lfloor>(1 / (10001 / 10000) :: real) ^ k * 2 ^ 96\<rfloor>"
    unfolding sqrtPriceForTick_def by (subst sqrt_powi_even(2)) simp_all
  also have "\<dots> = \<lfloor>(of_int 10000 / of_int 10001 :: real) ^ k * 2 ^ 96\<rfloor>"
    by simp
  also have "\<dots> = N"
    using assms by (intro floor_ratio_power) simp_all
  finally show ?thesis .
qed

lemma sqrtPriceForTick_200: "sqrtPriceForTick 200 = 80024378775772204256025656562"
proof -
  have "80024378775772204256025656562 * (10000::int) ^ 100 \<le> 10001 ^ 100 * 2 ^ 96"
    by simp
  moreover have "(10001::int) ^ 100 * 2 ^ 96 < (80024378775772204256025656562 + 1) * 10000 ^ 100"
    by simp
  ultimately have "sqrtPriceForTick (2 * int 100) = 80024378775772204256025656562"
    by (rule sqrtPriceForTick_even)
  then show ?thesis by simp
qed

lemma sqrtPriceForTick_100: "sqrtPriceForTick 100 = 79625275426524748796330556127"
proof -
  have "79625275426524748796330556127 * (10000::int) ^ 50 \<le> 10001 ^ 50 * 2 ^ 96"
    by simp
  moreover have "(10001::int) ^ 50 * 2 ^ 96 < (79625275426524748796330556127 + 1) * 10000 ^ 50"
    by simp
  ultimately have "sqrtPriceForTick (2 * int 50) = 79625275426524748796330556127"
    by (rule sqrtPriceForTick_even)
  then show ?thesis by simp
qed

lemma sqrtPriceForTick_minus_100: "sqrtPriceForTick (- 100) = 78833030112140176575862854578"
proof -
  have "78833030112140176575862854578 * (10001::int) ^ 50 \<le> 10000 ^ 50 * 2 ^ 96"
    by simp
  moreover have "(10000::int) ^ 50 * 2 ^ 96 < (78833030112140176575862854578 + 1) * 10001 ^ 50"
    by simp
  ultimately have "sqrtPriceForTick (- (2 * int 50)) = 78833030112140176575862854578"
    by (rule sqrtPriceForTick_minus_even)
  then show ?thesis by simp
qed

text \<open>
  Claim C1, as stated: with the current price at tick 200 and the range between the ticks
  \<open>-100\<close> and \<open>100\<close>, every positive liquidity gives \<open>amount0 > 0\<close> and \<open>amount1 = 0\<close>.
  The source does the opposite above the range ("all token1"): for the liquidity \<open>10^18\<close>
  it returns \<open>amount0 = "0"\<close> and \<open>amount1 = "9999541693800299"\<close>.
\<close>

theorem calculateAmountsFromLiquidity_tick_200_all_token1:
  "JSBI_BigInt ''80024378775772204256025656562'' = Inr (sqrtPriceForTick 200) \<and>
   JSBI_BigInt ''78833030112140176575862854578'' = Inr (sqrtPriceForTick (- 100)) \<and>
   JSBI_BigInt ''79625275426524748796330556127'' = Inr (sqrtPriceForTick 100) \<and>
   calculateAmountsFromLiquidity ''80024378775772204256025656562''
     ''78833030112140176575862854578'' ''79625275426524748796330556127''
     ''1000000000000000000'' =
   Inr \<lparr>amount0 = ''0'', amount1 = ''9999541693800299''\<rparr>"
  by (simp add: sqrtPriceForTick_200 sqrtPriceForTick_100 sqrtPriceForTick_minus_100
      calculateAmountsFromLiquidity_def JSBI_BigInt_def digit_val_def getAmount1ForLiquidity_def
      JSBI_divide_def Q96_def signed_divide_int_def JSBI_toString_def decimal.simps
      digit_char_def)

text \<open>
  Claim C1, amended. With the current square-root price that of tick 200 and the bounds
  those of the ticks \<open>-100\<close> and \<open>100\<close>, for every positive liquidity \<open>L\<close>
  \<open>calculateAmountsFromLiquidity\<close> returns \<open>amount0 = 0\<close> exactly and
  \<open>amount1 = L * (sqrtPriceB - sqrtPriceA) div 2^96\<close>, which is positive exactly when
  \<open>L \<ge> 101\<close>.
\<close>

theorem calculateAmountsFromLiquidity_above_range_ticks:
  assumes "0 < L"
  shows "calculateAmountsFromLiquidity (JSBI_toString (sqrtPriceForTick 200))
           (JSBI_toString (sqrtPriceForTick (- 100))) (JSBI_toString (sqrtPriceForTick 100))
           (JSBI_toString L) =
         Inr \<lparr>amount0 = ''0'',
              amount1 = JSBI_toString
                (L * (sqrtPriceForTick 100 - sqrtPriceForTick (- 100)) div 2 ^ 96)\<rparr> \<and>
         (0 < L * (sqrtPriceForTick 100 - sqrtPriceForTick (- 100)) div 2 ^ 96 \<longleftrightarrow> 101 \<le> L)"
proof -
  have "calculateAmountsFromLiquidity (JSBI_toString (sqrtPriceForTick 200))
           (JSBI_toString (sqrtPriceForTick (- 100))) (JSBI_toString (sqrtPriceForTick 100))
           (JSBI_toString L) =
         Inr \<lparr>amount0 = ''0'',
              amount1 = JSBI_toString
                (L * (sqrtPriceForTick 100 - sqrtPriceForTick (- 100)) div 2 ^ 96)\<rparr>"
    using assms
    by (intro calculateAmountsFromLiquidity_above)
      (simp_all add: sqrtPriceForTick_200 sqrtPriceForTick_100 sqrtPriceForTick_minus_100)
  moreover have "0 < L * 792245314384572220467701549 div 2 ^ 96 \<longleftrightarrow> 101 \<le> L"
  proof
    assume "0 < L * 792245314384572220467701549 div 2 ^ 96"
    then have "2 ^ 96 \<le> L * 792245314384572220467701549"
      using assms by (simp add: pos_imp_zdiv_pos_iff)
    then show "101 \<le> L"
      by simp
  next
    assume "101 \<le> L"
    then have "2 ^ 96 \<le> L * 792245314384572220467701549"
      by simp
    then show "0 < L * 792245314384572220467701549 div 2 ^ 96"
      by (simp add: pos_imp_zdiv_pos_iff)
  qed
  ultimately show ?thesis
    by (simp add: sqrtPriceForTick_100 sqrtPriceForTick_minus_100)
qed

theorem calculateAmountsFromLiquidity_above_range_ticks_witness:
  "(0 :: int) < 1000000000000000000 \<and>
   calculateAmountsFromLiquidity (JSBI_toString (sqrtPriceForTick 200))
     (JSBI_toString (sqrtPriceForTick (- 100))) (JSBI_toString (sqrtPriceForTick 100))
     (JSBI_toString 1000000000000000000) =
   Inr \<lparr>amount0 = ''0'', amount1 = JSBI_toString 9999541693800299\<rparr>"
  using calculateAmountsFromLiquidity_above_range_ticks [of 1000000000000000000]
  by (simp add: sqrtPriceForTick_100 sqrtPriceForTick_minus_100)

end
